theory Spec2Isabelle
  imports Complex_Main "HOL-Library.AList"
begin

section \<open>Vectors of three floats\<close>

text \<open>
  The arrays of shape \<open>(3,)\<close> of the source are modelled as triples of reals: float
  arithmetic is idealised as exact arithmetic, and every comparison "up to tolerance"
  goes through the function \<open>_jit_isclose\<close> of the environment below.
\<close>

datatype vec3 = Vec3 (vx: real) (vy: real) (vz: real)

instantiation vec3 :: real_vector
begin

definition zero_vec3 :: vec3 where
  "zero_vec3 = Vec3 0 0 0"

definition plus_vec3 :: "vec3 \<Rightarrow> vec3 \<Rightarrow> vec3" where
  "plus_vec3 u v = Vec3 (vx u + vx v) (vy u + vy v) (vz u + vz v)"

definition minus_vec3 :: "vec3 \<Rightarrow> vec3 \<Rightarrow> vec3" where
  "minus_vec3 u v = Vec3 (vx u - vx v) (vy u - vy v) (vz u - vz v)"

definition uminus_vec3 :: "vec3 \<Rightarrow> vec3" where
  "uminus_vec3 u = Vec3 (- vx u) (- vy u) (- vz u)"

definition scaleR_vec3 :: "real \<Rightarrow> vec3 \<Rightarrow> vec3" where
  "scaleR_vec3 c u = Vec3 (c * vx u) (c * vy u) (c * vz u)"

instance
  by standard
    (simp_all add: zero_vec3_def plus_vec3_def minus_vec3_def uminus_vec3_def
      scaleR_vec3_def algebra_simps)

end

text \<open>\<open>np.cross\<close>, \<open>np.linalg.norm\<close> and the scalar product, on vectors of length 3.\<close>

definition np_cross :: "vec3 \<Rightarrow> vec3 \<Rightarrow> vec3" where
  "np_cross u v =
     Vec3 (vy u * vz v - vz u * vy v) (vz u * vx v - vx u * vz v) (vx u * vy v - vy u * vx v)"

definition inner3 :: "vec3 \<Rightarrow> vec3 \<Rightarrow> real" where
  "inner3 u v = vx u * vx v + vy u * vy v + vz u * vz v"

definition np_norm :: "vec3 \<Rightarrow> real" where
  "np_norm u = sqrt (inner3 u u)"

text \<open>A \<open>(3, 3)\<close> array is the triple of its rows; \<open>np.dot\<close> of a matrix and a vector.\<close>

type_synonym mat3 = "vec3 \<times> vec3 \<times> vec3"

definition np_dot :: "mat3 \<Rightarrow> vec3 \<Rightarrow> vec3" where
  "np_dot M v = (case M of (r0, r1, r2) \<Rightarrow> Vec3 (inner3 r0 v) (inner3 r1 v) (inner3 r2 v))"

definition np_radians :: "real \<Rightarrow> real" where
  "np_radians x = x * pi / 180"

section \<open>The parts of chemcoord that the module imports\<close>

datatype err_code = ERR_CODE_OK | ERR_CODE_InvalidReference

record cartesian_row =
  c_index :: int
  c_atom :: string
  c_pos :: vec3

type_synonym cartesian = "cartesian_row list"

text \<open>
  The module imports \<open>_jit_isclose\<close>, \<open>_jit_normalize\<close>, \<open>_jit_cross\<close> and
  \<open>_jit_get_rotation_matrix\<close> from \<open>xyz_functions\<close>, \<open>keys_below_are_abs_refs\<close> and
  \<open>_jit_absolute_refs\<close> from \<open>constants\<close>, and calls \<open>_get_positions\<close> and
  \<open>_calculate_zmat_values\<close> of the class \<open>Cartesian\<close>. None of them is defined in the
  module, so they are parameters of the model, collected in one record. The field
  \<open>uninitialised\<close> is the content of the memory that \<open>np.empty\<close> hands out and that an
  unchecked index reads: the compiled loop never initialises it and never checks a bound.
\<close>

record environment =
  jit_isclose :: "real \<Rightarrow> real \<Rightarrow> bool"
  jit_normalize :: "vec3 \<Rightarrow> vec3"
  jit_cross :: "vec3 \<Rightarrow> vec3 \<Rightarrow> vec3"
  jit_get_rotation_matrix :: "vec3 \<Rightarrow> real \<Rightarrow> mat3"
  keys_below_are_abs_refs :: int
  jit_absolute_refs :: "int \<Rightarrow> vec3"
  uninitialised :: "int \<Rightarrow> vec3"
  get_positions :: "cartesian \<Rightarrow> int \<times> int \<times> int \<Rightarrow> vec3 \<times> vec3 \<times> vec3"
  calculate_zmat_values :: "cartesian \<Rightarrow> (int \<times> int \<times> int \<times> int) list \<Rightarrow> (real \<times> real \<times> real) list"

text \<open>\<open>_jit_isclose(u, zeros).all()\<close> on arrays: the comparison is elementwise.\<close>

definition isclose_all :: "environment \<Rightarrow> vec3 \<Rightarrow> vec3 \<Rightarrow> bool" where
  "isclose_all E u v \<longleftrightarrow>
     jit_isclose E (vx u) (vx v) \<and> jit_isclose E (vy u) (vy v) \<and> jit_isclose E (vz u) (vz v)"

section \<open>Placing one atom\<close>

definition jit_calc_single_position ::
  "environment \<Rightarrow> vec3 \<times> vec3 \<times> vec3 \<Rightarrow> (real \<times> real \<times> real) list \<Rightarrow> nat \<Rightarrow> err_code \<times> vec3" where
  "jit_calc_single_position E references zmat_values row =
     (case zmat_values ! row of (bond, angle, dihedral) \<Rightarrow>
      case references of (vb, va, vd) \<Rightarrow>
      let zeros = Vec3 0 0 0;
          BA = va - vb
      in if isclose_all E BA zeros then (ERR_CODE_InvalidReference, zeros)
         else
           let ba = jit_normalize E BA
           in if jit_isclose E angle pi then (ERR_CODE_OK, vb + bond *\<^sub>R (- ba))
              else if jit_isclose E angle 0 then (ERR_CODE_OK, vb + bond *\<^sub>R ba)
              else
                let AD = vd - va;
                    N1 = jit_cross E BA AD
                in if isclose_all E N1 zeros then (ERR_CODE_InvalidReference, zeros)
                   else
                     let n1 = jit_normalize E N1;
                         d0 = bond *\<^sub>R ba;
                         d1 = np_dot (jit_get_rotation_matrix E n1 angle) d0;
                         d2 = np_dot (jit_get_rotation_matrix E ba dihedral) d1
                     in (ERR_CODE_OK, vb + d2))"

section \<open>The Z-matrix\<close>

text \<open>
  One row of the frame: the index label, then the columns in the order \<open>atom\<close>, \<open>b\<close>,
  \<open>bond\<close>, \<open>a\<close>, \<open>angle\<close>, \<open>d\<close>, \<open>dihedral\<close> that \<open>change_numbering\<close> relies on when
  it addresses the construction table by the column positions 1, 3 and 5. Index labels
  are taken to be distinct wherever a row is looked up by its label.
\<close>

record zmat_row =
  z_index :: int
  z_atom :: string
  z_b :: int
  z_bond :: real
  z_a :: int
  z_angle :: real
  z_d :: int
  z_dihedral :: real

record dummy_info =
  dummy_d :: int
  actual_d :: int

text \<open>
  The instance: its frame and the two entries of \<open>_metadata\<close> that the conversion and
  the dummy manipulation use. \<open>has_dummies\<close> is a dict, kept in insertion order.
\<close>

record zmat =
  frame :: "zmat_row list"
  has_dummies :: "(int \<times> dummy_info) list"
  last_valid_cartesian :: cartesian

record invalid_reference =
  exc_index :: int
  exc_b :: int
  exc_a :: int
  exc_d :: int
  already_built_cartesian :: cartesian

datatype exception = InvalidReference invalid_reference | KeyError int

text \<open>\<open>index.get_loc(i)\<close>: the position of a label, and \<open>loc[i]\<close>: the row with that label.\<close>

fun get_loc :: "int list \<Rightarrow> int \<Rightarrow> nat option" where
  "get_loc [] i = None"
| "get_loc (x # xs) i = (if x = i then Some 0 else map_option Suc (get_loc xs i))"

definition loc :: "zmat_row list \<Rightarrow> int \<Rightarrow> zmat_row option" where
  "loc fr i = map_option (\<lambda>k. fr ! k) (get_loc (map z_index fr) i)"

subsection \<open>\<open>change_numbering\<close> with its default arguments\<close>

text \<open>
  \<open>new_index\<close> is \<open>range(len(self))\<close>. Every entry of the columns \<open>b\<close>, \<open>a\<close>, \<open>d\<close> that
  is an index label is replaced by the position of that label; then the upper triangle of
  the first three rows (\<open>b\<close>, \<open>a\<close>, \<open>d\<close> of row 0, \<open>a\<close>, \<open>d\<close> of row 1, \<open>d\<close> of row 2)
  is put back to what it was.
\<close>

definition replace_label :: "int list \<Rightarrow> int \<Rightarrow> int" where
  "replace_label idx v = (case get_loc idx v of Some k \<Rightarrow> int k | None \<Rightarrow> v)"

definition renumber_row :: "int list \<Rightarrow> nat \<Rightarrow> zmat_row \<Rightarrow> zmat_row" where
  "renumber_row idx p r =
     r\<lparr>z_index := int p,
       z_b := (if p < 1 then z_b r else replace_label idx (z_b r)),
       z_a := (if p < 2 then z_a r else replace_label idx (z_a r)),
       z_d := (if p < 3 then z_d r else replace_label idx (z_d r))\<rparr>"

definition change_numbering :: "zmat_row list \<Rightarrow> zmat_row list" where
  "change_numbering fr =
     map (\<lambda>(p, r). renumber_row (map z_index fr) p r) (enumerate 0 fr)"

section \<open>Placing all atoms in table order\<close>

text \<open>
  \<open>positions[j]\<close> in the compiled loop: a negative index counts from the end, and an
  index outside the array is not checked, so it reads whatever memory is there.
\<close>

definition read_position :: "environment \<Rightarrow> vec3 list \<Rightarrow> int \<Rightarrow> vec3" where
  "read_position E positions j =
     (let n = int (length positions);
          k = (if j < 0 then j + n else j)
      in if 0 \<le> k \<and> k < n then positions ! nat k else uninitialised E j)"

definition ref_position :: "environment \<Rightarrow> vec3 list \<Rightarrow> int \<Rightarrow> vec3" where
  "ref_position E positions j =
     (if j < keys_below_are_abs_refs E then jit_absolute_refs E j
      else read_position E positions j)"

definition ref_pos_of :: "environment \<Rightarrow> vec3 list \<Rightarrow> int \<times> int \<times> int \<Rightarrow> vec3 \<times> vec3 \<times> vec3" where
  "ref_pos_of E positions c =
     (case c of (jb, ja, jd) \<Rightarrow>
        (ref_position E positions jb, ref_position E positions ja, ref_position E positions jd))"

text \<open>
  The loop \<open>for row in range(n_atoms)\<close>, over the rows still to do. The argument \<open>row\<close>
  is the loop variable as the code after the loop reads it: the last row entered, and 0
  when the range is empty (compiled code initialises every variable with zero).
\<close>

fun calc_rows ::
  "environment \<Rightarrow> (int \<times> int \<times> int) list \<Rightarrow> (real \<times> real \<times> real) list \<Rightarrow>
     nat list \<Rightarrow> nat \<Rightarrow> vec3 list \<Rightarrow> err_code \<times> nat \<times> vec3 list" where
  "calc_rows E c_table zmat_values [] row positions = (ERR_CODE_OK, row, positions)"
| "calc_rows E c_table zmat_values (r # rs) row positions =
     (case jit_calc_single_position E (ref_pos_of E positions (c_table ! r)) zmat_values r of
        (err, pos) \<Rightarrow>
          if err = ERR_CODE_OK
          then calc_rows E c_table zmat_values rs r (positions[r := pos])
          else (err, r, positions))"

definition np_empty :: "environment \<Rightarrow> nat \<Rightarrow> vec3 list" where
  "np_empty E n = map (\<lambda>k. uninitialised E (int k)) [0..<n]"

definition jit_calc_positions ::
  "environment \<Rightarrow> (int \<times> int \<times> int) list \<Rightarrow> (real \<times> real \<times> real) list \<Rightarrow>
     err_code \<times> nat \<times> vec3 list" where
  "jit_calc_positions E c_table zmat_values =
     (let n_atoms = length c_table
      in calc_rows E c_table zmat_values [0..<n_atoms] 0 (np_empty E n_atoms))"

section \<open>\<open>get_cartesian\<close>\<close>

definition c_table_of :: "zmat_row list \<Rightarrow> (int \<times> int \<times> int) list" where
  "c_table_of fr = map (\<lambda>r. (z_b r, z_a r, z_d r)) fr"

definition zmat_values_of :: "zmat_row list \<Rightarrow> (real \<times> real \<times> real) list" where
  "zmat_values_of fr = map (\<lambda>r. (z_bond r, np_radians (z_angle r), np_radians (z_dihedral r))) fr"

text \<open>\<open>create_cartesian(positions, row)\<close>: the first \<open>row\<close> labels, their atoms and positions.\<close>

definition create_cartesian :: "zmat_row list \<Rightarrow> vec3 list \<Rightarrow> nat \<Rightarrow> cartesian" where
  "create_cartesian fr positions row =
     map (\<lambda>(i, p). \<lparr>c_index = i,
                     c_atom = (case loc fr i of Some r \<Rightarrow> z_atom r | None \<Rightarrow> []),
                     c_pos = p\<rparr>)
       (zip (take row (map z_index fr)) (take row positions))"

definition get_cartesian :: "environment \<Rightarrow> zmat \<Rightarrow> exception + cartesian" where
  "get_cartesian E self =
     (let zm = change_numbering (frame self);
          c_table = c_table_of zm;
          zmat_values = zmat_values_of zm
      in case jit_calc_positions E c_table zmat_values of
           (err, row, positions) \<Rightarrow>
             if err = ERR_CODE_InvalidReference
             then
               (let i = map z_index (frame self) ! row
                in case loc (frame self) i of
                     None \<Rightarrow> Inl (KeyError i)
                   | Some r \<Rightarrow>
                       Inl (InvalidReference
                         \<lparr>exc_index = i, exc_b = z_b r, exc_a = z_a r, exc_d = z_d r,
                          already_built_cartesian = create_cartesian (frame self) positions row\<rparr>))
             else Inr (create_cartesian (frame self) positions (row + 1)))"

section \<open>A standard environment\<close>

text \<open>
  Modelled from the spec: the helpers of \<open>xyz_functions\<close> and \<open>constants\<close> and the two
  methods of \<open>Cartesian\<close> are not in the module. The spec asks for one fixed tolerance
  for every test "is this zero, is this angle 0 or \<open>\<pi>\<close>", a normalisation, a rotation of
  a vector around an axis by an angle, an absolute frame made of an origin and unit
  vectors, positions looked up by atom id, and internal coordinates derived from known
  positions. The definitions below are one such environment; the theorems hold for every
  environment and use this one where a concrete input is evaluated.
\<close>

definition std_isclose :: "real \<Rightarrow> real \<Rightarrow> bool" where
  "std_isclose x y \<longleftrightarrow> \<bar>x - y\<bar> \<le> 1 / 100000 + 1 / 100000000 * \<bar>y\<bar>"

definition std_normalize :: "vec3 \<Rightarrow> vec3" where
  "std_normalize v = (1 / np_norm v) *\<^sub>R v"

definition std_rotation_matrix :: "vec3 \<Rightarrow> real \<Rightarrow> mat3" where
  "std_rotation_matrix axis angle =
     (let k = std_normalize axis;
          x = vx k; y = vy k; z = vz k;
          c = cos angle; s = sin angle; t = 1 - c
      in (Vec3 (c + x * x * t) (x * y * t - z * s) (x * z * t + y * s),
          Vec3 (y * x * t + z * s) (c + y * y * t) (y * z * t - x * s),
          Vec3 (z * x * t - y * s) (z * y * t + x * s) (c + z * z * t)))"

definition abs_origin :: int where "abs_origin = - 9223372036854775808"
definition abs_e_x :: int where "abs_e_x = - 9223372036854775807"
definition abs_e_y :: int where "abs_e_y = - 9223372036854775806"
definition abs_e_z :: int where "abs_e_z = - 9223372036854775805"

definition std_absolute_refs :: "int \<Rightarrow> vec3" where
  "std_absolute_refs j =
     (if j = abs_origin then Vec3 0 0 0
      else if j = abs_e_x then Vec3 1 0 0
      else if j = abs_e_y then Vec3 0 1 0
      else Vec3 0 0 1)"

definition std_position :: "cartesian \<Rightarrow> int \<Rightarrow> vec3" where
  "std_position cart j =
     (if j < abs_e_z + 1 then std_absolute_refs j
      else case find (\<lambda>r. c_index r = j) cart of Some r \<Rightarrow> c_pos r | None \<Rightarrow> Vec3 0 0 0)"

definition std_get_positions :: "cartesian \<Rightarrow> int \<times> int \<times> int \<Rightarrow> vec3 \<times> vec3 \<times> vec3" where
  "std_get_positions cart labels =
     (case labels of (jb, ja, jd) \<Rightarrow>
        (std_position cart jb, std_position cart ja, std_position cart jd))"

definition np_degrees :: "real \<Rightarrow> real" where
  "np_degrees x = x * 180 / pi"

definition std_zmat_values :: "cartesian \<Rightarrow> int \<times> int \<times> int \<times> int \<Rightarrow> real \<times> real \<times> real" where
  "std_zmat_values cart c =
     (case c of (i, jb, ja, jd) \<Rightarrow>
        let BI = std_position cart i - std_position cart jb;
            BA = std_position cart ja - std_position cart jb;
            AD = std_position cart jd - std_position cart ja;
            n1 = std_normalize (np_cross BA AD);
            n2 = std_normalize (np_cross BA BI);
            turn = arccos (inner3 n1 n2)
        in (np_norm BI,
            np_degrees (arccos (inner3 (std_normalize BA) (std_normalize BI))),
            np_degrees (if inner3 (np_cross n1 n2) BA < 0 then - turn else turn)))"

definition std_env :: environment where
  "std_env =
     \<lparr>jit_isclose = std_isclose,
      jit_normalize = std_normalize,
      jit_cross = np_cross,
      jit_get_rotation_matrix = std_rotation_matrix,
      keys_below_are_abs_refs = abs_e_z + 1,
      jit_absolute_refs = std_absolute_refs,
      uninitialised = (\<lambda>j. Vec3 0 0 0),
      get_positions = std_get_positions,
      calculate_zmat_values = (\<lambda>cart. map (std_zmat_values cart))\<rparr>"

section \<open>Properties of the standard environment\<close>

lemma std_isclose_pi_pi [simp]: "std_isclose pi pi"
  by (simp add: std_isclose_def)

lemma std_isclose_0_0 [simp]: "std_isclose 0 0"
  by (simp add: std_isclose_def)

lemma std_not_isclose_pi_0 [simp]: "\<not> std_isclose pi 0"
  using pi_ge_two by (simp add: std_isclose_def)

lemma std_not_isclose_0_pi [simp]: "\<not> std_isclose 0 pi"
  using pi_ge_two by (simp add: std_isclose_def)

lemma std_isclose_0_iff: "std_isclose x 0 \<longleftrightarrow> \<bar>x\<bar> \<le> 1 / 100000"
  by (simp add: std_isclose_def)

lemma std_not_isclose_half_pi [simp]:
  "\<not> std_isclose (pi / 2) pi" "\<not> std_isclose (pi / 2) 0"
  using pi_ge_two by (simp_all add: std_isclose_def)

section \<open>The placement of one atom\<close>

text \<open>
  C3. Let the bond reference not be degenerate (\<open>va - vb\<close> is not numerically zero) and
  let the tolerance tell \<open>0\<close> from \<open>\<pi>\<close>. If the angle is numerically \<open>\<pi>\<close>, the placement
  returns \<open>vb - bond \<cdot> normalize (va - vb)\<close>; if it is numerically \<open>0\<close>, it returns
  \<open>vb + bond \<cdot> normalize (va - vb)\<close>. In both cases no singularity is signalled and the
  result is the same for every dihedral value and every dihedral reference position.
\<close>

theorem single_position_collinear_angle:
  assumes "zmat_values ! row = (bond, angle, dihedral)"
    and "\<not> isclose_all E (va - vb) (Vec3 0 0 0)"
    and "\<not> (jit_isclose E angle pi \<and> jit_isclose E angle 0)"
  shows "(jit_isclose E angle pi \<longrightarrow>
            jit_calc_single_position E (vb, va, vd) zmat_values row =
              (ERR_CODE_OK, vb - bond *\<^sub>R jit_normalize E (va - vb))) \<and>
         (jit_isclose E angle 0 \<longrightarrow>
            jit_calc_single_position E (vb, va, vd) zmat_values row =
              (ERR_CODE_OK, vb + bond *\<^sub>R jit_normalize E (va - vb))) \<and>
         (jit_isclose E angle pi \<or> jit_isclose E angle 0 \<longrightarrow>
            (\<forall>zmat_values' row' dihedral' vd'.
               zmat_values' ! row' = (bond, angle, dihedral') \<longrightarrow>
               jit_calc_single_position E (vb, va, vd') zmat_values' row' =
                 jit_calc_single_position E (vb, va, vd) zmat_values row))"
  using assms by (auto simp: jit_calc_single_position_def Let_def)

theorem single_position_collinear_angle_witness:
  "\<not> isclose_all std_env (Vec3 0 0 1 - Vec3 0 0 0) (Vec3 0 0 0) \<and>
   jit_isclose std_env pi pi \<and> \<not> jit_isclose std_env pi 0 \<and>
   jit_calc_single_position std_env (Vec3 0 0 0, Vec3 0 0 1, Vec3 1 0 0) [(2, pi, 1)] 0 =
     (ERR_CODE_OK, Vec3 0 0 0 - 2 *\<^sub>R jit_normalize std_env (Vec3 0 0 1 - Vec3 0 0 0)) \<and>
   jit_calc_single_position std_env (Vec3 0 0 0, Vec3 0 0 1, Vec3 5 7 9) [(2, pi, 3)] 0 =
     jit_calc_single_position std_env (Vec3 0 0 0, Vec3 0 0 1, Vec3 1 0 0) [(2, pi, 1)] 0"
proof -
  have v: "[(2::real, pi, 1::real)] ! 0 = (2, pi, 1)" by simp
  have v': "[(2::real, pi, 3::real)] ! 0 = (2, pi, 3)" by simp
  have h1: "\<not> isclose_all std_env (Vec3 0 0 1 - Vec3 0 0 0) (Vec3 0 0 0)"
    by (simp add: isclose_all_def std_env_def minus_vec3_def std_isclose_0_iff)
  have h3: "jit_isclose std_env pi pi" by (simp add: std_env_def)
  have h4: "\<not> jit_isclose std_env pi 0" by (simp add: std_env_def)
  have h2: "\<not> (jit_isclose std_env pi pi \<and> jit_isclose std_env pi 0)"
    using h4 by simp
  from single_position_collinear_angle [OF v h1 h2, of "Vec3 1 0 0"] h1 h3 h4 v'
  show ?thesis by blast
qed

text \<open>
  C4. The placement signals a singularity exactly when \<open>BA = va - vb\<close> is numerically
  zero, or the angle is numerically neither \<open>0\<close> nor \<open>\<pi>\<close> and \<open>N1 = BA \<times> AD\<close> with
  \<open>AD = vd - va\<close> is numerically zero. In every other case it returns a position
  \<open>vb + d\<close>, and in the general branch \<open>d\<close> is \<open>bond \<cdot> normalize BA\<close> rotated by the
  angle around \<open>normalize N1\<close> and then by the dihedral around \<open>normalize BA\<close>.
\<close>

theorem single_position_singularity_iff:
  assumes "zmat_values ! row = (bond, angle, dihedral)"
  shows "(fst (jit_calc_single_position E (vb, va, vd) zmat_values row) = ERR_CODE_InvalidReference \<longleftrightarrow>
            isclose_all E (va - vb) (Vec3 0 0 0) \<or>
            (\<not> jit_isclose E angle pi \<and> \<not> jit_isclose E angle 0 \<and>
             isclose_all E (jit_cross E (va - vb) (vd - va)) (Vec3 0 0 0))) \<and>
         (fst (jit_calc_single_position E (vb, va, vd) zmat_values row) \<noteq> ERR_CODE_InvalidReference \<longrightarrow>
            (\<exists>d. jit_calc_single_position E (vb, va, vd) zmat_values row = (ERR_CODE_OK, vb + d))) \<and>
         (\<not> isclose_all E (va - vb) (Vec3 0 0 0) \<and> \<not> jit_isclose E angle pi \<and>
          \<not> jit_isclose E angle 0 \<and>
          \<not> isclose_all E (jit_cross E (va - vb) (vd - va)) (Vec3 0 0 0) \<longrightarrow>
            jit_calc_single_position E (vb, va, vd) zmat_values row =
              (ERR_CODE_OK,
               vb + np_dot (jit_get_rotation_matrix E (jit_normalize E (va - vb)) dihedral)
                      (np_dot (jit_get_rotation_matrix E
                                 (jit_normalize E (jit_cross E (va - vb) (vd - va))) angle)
                         (bond *\<^sub>R jit_normalize E (va - vb)))))"
  using assms by (auto simp: jit_calc_single_position_def Let_def)

theorem single_position_singularity_iff_witness:
  "\<not> isclose_all std_env (Vec3 0 0 1 - Vec3 0 0 0) (Vec3 0 0 0) \<and>
   \<not> jit_isclose std_env (pi / 2) pi \<and> \<not> jit_isclose std_env (pi / 2) 0 \<and>
   \<not> isclose_all std_env
       (jit_cross std_env (Vec3 0 0 1 - Vec3 0 0 0) (Vec3 1 0 0 - Vec3 0 0 1)) (Vec3 0 0 0) \<and>
   fst (jit_calc_single_position std_env (Vec3 0 0 0, Vec3 0 0 1, Vec3 1 0 0) [(2, pi / 2, 0)] 0)
     \<noteq> ERR_CODE_InvalidReference \<and>
   jit_calc_single_position std_env (Vec3 0 0 0, Vec3 0 0 1, Vec3 1 0 0) [(2, pi / 2, 0)] 0 =
     (ERR_CODE_OK,
      Vec3 0 0 0 +
      np_dot (jit_get_rotation_matrix std_env (jit_normalize std_env (Vec3 0 0 1 - Vec3 0 0 0)) 0)
        (np_dot (jit_get_rotation_matrix std_env
                   (jit_normalize std_env
                      (jit_cross std_env (Vec3 0 0 1 - Vec3 0 0 0) (Vec3 1 0 0 - Vec3 0 0 1)))
                   (pi / 2))
           (2 *\<^sub>R jit_normalize std_env (Vec3 0 0 1 - Vec3 0 0 0))))"
proof -
  have v: "[(2::real, pi / 2, 0::real)] ! 0 = (2, pi / 2, 0)" by simp
  have h1: "\<not> isclose_all std_env (Vec3 0 0 1 - Vec3 0 0 0) (Vec3 0 0 0)"
    by (simp add: isclose_all_def std_env_def minus_vec3_def std_isclose_0_iff)
  have h2: "\<not> jit_isclose std_env (pi / 2) pi" by (simp add: std_env_def)
  have h3: "\<not> jit_isclose std_env (pi / 2) 0" by (simp add: std_env_def)
  have h4: "\<not> isclose_all std_env
       (jit_cross std_env (Vec3 0 0 1 - Vec3 0 0 0) (Vec3 1 0 0 - Vec3 0 0 1)) (Vec3 0 0 0)"
    by (simp add: isclose_all_def std_env_def minus_vec3_def np_cross_def std_isclose_0_iff)
  from single_position_singularity_iff [OF v, where E = std_env and vb = "Vec3 0 0 0"
      and va = "Vec3 0 0 1" and vd = "Vec3 1 0 0"]
    h1 h2 h3 h4
  show ?thesis by blast
qed

end
